theory Spec2Isabelle
  imports Complex_Main "HOL-Library.AList" "HOL-Library.Sublist" "HOL-Library.Char_ord"
    "HOL-Library.List_Lexorder" "HOL-Library.Product_Lexorder"
begin

section \<open>Values of parsed configuration documents\<close>

text \<open>
  A configuration document is what \<^verbatim>\<open>json.load\<close> or \<^verbatim>\<open>yaml.safe_load\<close> returns: nested
  dictionaries, lists and scalars. A Python \<^verbatim>\<open>dict\<close> keeps its keys in insertion order, and
  the code iterates over dictionaries, so a dictionary is an association list; its keys are
  strings. \<^verbatim>\<open>d[k] = v\<close> is \<open>AList.update k v d\<close>: an existing key keeps its place, a new key
  goes to the end.
\<close>

datatype json =
    JNull
  | JBool bool
  | JInt int
  | JFloat real
  | JStr string
  | JList "json list"
  | JDict "(string \<times> json) list"

type_synonym dict = "(string \<times> json) list"

text \<open>The exceptions the code raises: \<^verbatim>\<open>ConfigError\<close> with its message, and Python's own.\<close>

datatype value_error =
    DuplicateModuleKey string
  | CategoryNotFound
  | DuplicateLearningObjectKeys "string set"
  | DecodeError
  | UpdateSequenceLength

datatype config_error =
    RequiredFieldMissing string string
  | MultipleConfigFiles string
  | NoSupportedConfig string
  | UnsupportedFormat string
  | ConfigurationErrorIn string value_error
  | KeyAlreadyExists string json string json string
  | UnsupportedProcessorTag string

datatype error =
    ConfigError config_error
  | ValueError value_error
  | YAMLError
  | AttributeError
  | TypeError
  | KeyError
  | IndexError
  | OSError
  | CollaboratorError

text \<open>
  \<^verbatim>\<open>ValueError\<close> carries what the message says: the three validators of the course
  model raise it, \<^verbatim>\<open>json.load\<close> raises it on text that is not JSON (\<open>DecodeError\<close>), and
  \<^verbatim>\<open>dict.update\<close> raises it on a sequence whose elements are not pairs.
  \<open>CollaboratorError\<close> is an exception of a collaborator outside this repository
  (template renderer, markup renderer).

  Python's tests on a value: truth (\<^verbatim>\<open>if v\<close>) and membership (\<^verbatim>\<open>name in v\<close>) of a string.
  Membership looks at the keys of a dictionary, the elements of a list and the substrings
  of a string, and raises \<^verbatim>\<open>TypeError\<close> on the other values.
\<close>

fun truthy :: "json \<Rightarrow> bool" where
  "truthy JNull = False"
| "truthy (JBool b) = b"
| "truthy (JInt i) = (i \<noteq> 0)"
| "truthy (JFloat r) = (r \<noteq> 0)"
| "truthy (JStr s) = (s \<noteq> [])"
| "truthy (JList xs) = (xs \<noteq> [])"
| "truthy (JDict d) = (d \<noteq> [])"

fun py_contains :: "json \<Rightarrow> string \<Rightarrow> error + bool" where
  "py_contains (JDict d) name = Inr (name \<in> set (map fst d))"
| "py_contains (JList xs) name = Inr (JStr name \<in> set xs)"
| "py_contains (JStr s) name = Inr (sublist name s)"
| "py_contains v name = Inl TypeError"

section \<open>Exercise configurations: \<^verbatim>\<open>ExerciseConfig.data_for_language\<close>\<close>

text \<open>
  \<^verbatim>\<open>ExerciseConfig\<close> of \<^verbatim>\<open>access/course.py\<close>. The class of the same name in
  \<^verbatim>\<open>access/config.py\<close> has the same method, reading \<^verbatim>\<open>self.course.lang\<close> where this one
  reads \<^verbatim>\<open>self.default_lang\<close>. The field \<^verbatim>\<open>data\<close> maps a language code to the variant of
  the exercise document for that language.
\<close>

record ExerciseConfig =
  ex_data :: "(string \<times> dict) list"
  ex_file :: string
  ex_mtime :: real
  ex_ptime :: real
  ex_default_lang :: string

text \<open>
  The method returns either the whole \<^verbatim>\<open>self.data\<close> (selector \<^verbatim>\<open>'_root'\<close>) or one variant.
  The variant found under a language is the stored dictionary itself, and
  \<^verbatim>\<open>data["lang"] = lang\<close> writes into it: the model returns the updated object next to the
  result.
\<close>

datatype dfl_result = Root "(string \<times> dict) list" | Variant dict

text \<open>The loop \<^verbatim>\<open>for lang in (lang, self.default_lang)\<close>; \<^verbatim>\<open>None in self.data\<close> is false.\<close>

fun try_languages ::
  "ExerciseConfig \<Rightarrow> string option list \<Rightarrow> (dict \<times> ExerciseConfig) option" where
  "try_languages self [] = None"
| "try_languages self (None # rest) = try_languages self rest"
| "try_languages self (Some lang # rest) =
     (case map_of (ex_data self) lang of
        Some data \<Rightarrow>
          (let data' = AList.update ''lang'' (JStr lang) data
           in Some (data', self\<lparr>ex_data := AList.update lang data' (ex_data self)\<rparr>))
      | None \<Rightarrow> try_languages self rest)"

definition data_for_language ::
  "ExerciseConfig \<Rightarrow> string option \<Rightarrow> error + (dfl_result \<times> ExerciseConfig)" where
  "data_for_language self lang =
     (if lang = Some ''_root'' then Inr (Root (ex_data self), self)
      else case try_languages self [lang, Some (ex_default_lang self)] of
        Some (data, self') \<Rightarrow> Inr (Variant data, self')
      | None \<Rightarrow>
          (case map snd (ex_data self) of
             [] \<Rightarrow> Inl IndexError
           | v # _ \<Rightarrow> Inr (Variant v, self)))"

section \<open>The course tree and its validators (\<^verbatim>\<open>access/course.py\<close>)\<close>

text \<open>
  \<^verbatim>\<open>Chapter\<close>, \<^verbatim>\<open>Exercise\<close>, \<^verbatim>\<open>LTIExercise\<close> and \<^verbatim>\<open>ExerciseCollection\<close> are the
  subclasses of \<^verbatim>\<open>Item\<close>; an item has a key, a category and, as a \<^verbatim>\<open>Parent\<close>, a list of
  child items. A \<^verbatim>\<open>Module\<close> is a \<^verbatim>\<open>Parent\<close> with a key of its own and no category. The
  validators below read no other field. \<^verbatim>\<open>Course.categories\<close> is a dictionary, of which
  only the keys are read.
\<close>

datatype item_kind = Chapter | Exercise | LTIExercise | ExerciseCollection

datatype Item =
  Item (item_kind: item_kind) (item_key: string) (category: string) (item_children: "Item list")

record Module =
  module_key :: string
  module_children :: "Item list"

record Course =
  course_modules :: "Module list"
  course_categories :: dict

text \<open>
  \<^verbatim>\<open>Parent.child_categories\<close>: the loop adds the category of each child to the set
  \<^verbatim>\<open>categories\<close>. The call \<^verbatim>\<open>categories.union(c.child_categories())\<close> builds a new set and
  the code drops it (\<^verbatim>\<open>set.union\<close> does not change its receiver), so the binding
  \<open>dropped\<close> is not used.
\<close>

fun child_categories :: "Item \<Rightarrow> string set"
  and child_categories_loop :: "Item list \<Rightarrow> string set \<Rightarrow> string set" where
  "child_categories (Item kd k cat children) = child_categories_loop children {}"
| "child_categories_loop [] categories = categories"
| "child_categories_loop (c # cs) categories =
     (let categories' = insert (category c) categories;
          dropped = categories' \<union> child_categories c
      in child_categories_loop cs categories')"

text \<open>\<^verbatim>\<open>Parent.child_keys\<close>: \<^verbatim>\<open>keys.append(c.key)\<close>, then \<^verbatim>\<open>keys.extend(c.child_keys())\<close>.\<close>

fun child_keys :: "Item \<Rightarrow> string list"
  and child_keys_loop :: "Item list \<Rightarrow> string list \<Rightarrow> string list" where
  "child_keys (Item kd k cat children) = child_keys_loop children []"
| "child_keys_loop [] keys = keys"
| "child_keys_loop (c # cs) keys = child_keys_loop cs ((keys @ [item_key c]) @ child_keys c)"

text \<open>The two methods on a module.\<close>

definition module_child_categories :: "Module \<Rightarrow> string set" where
  "module_child_categories m = child_categories_loop (module_children m) {}"

definition module_child_keys :: "Module \<Rightarrow> string list" where
  "module_child_keys m = child_keys_loop (module_children m) []"

text \<open>\<^verbatim>\<open>Course.validate_module_keys\<close>, the validator of the field \<^verbatim>\<open>modules\<close>.\<close>

fun validate_module_keys_loop :: "Module list \<Rightarrow> string list \<Rightarrow> error + unit" where
  "validate_module_keys_loop [] keys = Inr ()"
| "validate_module_keys_loop (m # ms) keys =
     (if module_key m \<in> set keys then Inl (ValueError (DuplicateModuleKey (module_key m)))
      else validate_module_keys_loop ms (keys @ [module_key m]))"

definition validate_module_keys :: "Module list \<Rightarrow> error + Module list" where
  "validate_module_keys ms =
     (case validate_module_keys_loop ms [] of Inl e \<Rightarrow> Inl e | Inr u \<Rightarrow> Inr ms)"

text \<open>
  \<^verbatim>\<open>Course.validate_categories\<close>. The inner loop runs over a set, in an order Python does
  not fix, so which missing category the message names is not fixed either: the error
  carries none.
\<close>

fun validate_categories_loop :: "Module list \<Rightarrow> dict \<Rightarrow> error + unit" where
  "validate_categories_loop [] cats = Inr ()"
| "validate_categories_loop (m # ms) cats =
     (if \<exists>c \<in> module_child_categories m. c \<notin> set (map fst cats)
      then Inl (ValueError CategoryNotFound)
      else validate_categories_loop ms cats)"

definition validate_categories :: "Course \<Rightarrow> error + Course" where
  "validate_categories values =
     (case validate_categories_loop (course_modules values) (course_categories values) of
        Inl e \<Rightarrow> Inl e | Inr u \<Rightarrow> Inr values)"

text \<open>
  \<^verbatim>\<open>Course.validate_keys\<close>. The keys are collected and compared module by module. The loop
  over \<^verbatim>\<open>keys\<close> that fills \<^verbatim>\<open>duplicates\<close> is \<open>find_duplicates\<close>.
\<close>

fun find_duplicates :: "string list \<Rightarrow> string set \<Rightarrow> string set \<Rightarrow> string set" where
  "find_duplicates [] keyset duplicates = duplicates"
| "find_duplicates (key # keys) keyset duplicates =
     (if key \<in> duplicates then find_duplicates keys keyset duplicates
      else if key \<notin> keyset then find_duplicates keys keyset (insert key duplicates)
      else find_duplicates keys (keyset - {key}) duplicates)"

fun validate_keys_loop :: "Module list \<Rightarrow> error + unit" where
  "validate_keys_loop [] = Inr ()"
| "validate_keys_loop (m # ms) =
     (let keys = module_child_keys m; keyset = set keys
      in if length keys \<noteq> card keyset
         then Inl (ValueError (DuplicateLearningObjectKeys (find_duplicates keys keyset {})))
         else validate_keys_loop ms)"

definition validate_keys :: "Course \<Rightarrow> error + Course" where
  "validate_keys values =
     (case validate_keys_loop (course_modules values) of Inl e \<Rightarrow> Inl e | Inr u \<Rightarrow> Inr values)"

text \<open>
  The items below a list of children, each before its own children and before its later
  siblings: the order in which \<^verbatim>\<open>child_keys\<close> meets them. It is not part of the code; the
  properties of \<^verbatim>\<open>validate_keys\<close> are stated with it.
\<close>

fun descendants :: "Item list \<Rightarrow> Item list" where
  "descendants [] = []"
| "descendants (Item kd k cat children # cs) =
     Item kd k cat children # descendants children @ descendants cs"

section \<open>The default language of a course (\<^verbatim>\<open>CourseConfig._default_lang\<close>)\<close>

definition DEFAULT_LANG :: string where
  "DEFAULT_LANG = ''en''"

text \<open>
  The test \<^verbatim>\<open>l == str\<close> compares the value of the field with the class \<^verbatim>\<open>str\<close>. No value
  of a parsed document is that class, so the test is false for every document.
\<close>

definition equals_str_class :: "json \<Rightarrow> bool" where
  "equals_str_class l = False"

text \<open>
  \<^verbatim>\<open>data.get('language')\<close> is \<^verbatim>\<open>None\<close> for a document without the field. The function
  writes \<^verbatim>\<open>data['lang']\<close>, so it returns the document next to the language; \<^verbatim>\<open>l[0]\<close> on
  an empty list raises \<^verbatim>\<open>IndexError\<close>.
\<close>

definition config_default_lang :: "dict \<Rightarrow> error + (json \<times> dict)" where
  "config_default_lang data =
     (let l = (case map_of data ''language'' of Some v \<Rightarrow> v | None \<Rightarrow> JNull) in
      case (case l of
              JList xs \<Rightarrow>
                (case xs of [] \<Rightarrow> Inl IndexError
                 | x # rest \<Rightarrow> Inr (AList.update ''lang'' x data))
            | other \<Rightarrow>
                if equals_str_class l then Inr (AList.update ''lang'' l data) else Inr data) of
        Inl e \<Rightarrow> Inl e
      | Inr data' \<Rightarrow>
          Inr (case map_of data' ''lang'' of Some v \<Rightarrow> v | None \<Rightarrow> JStr DEFAULT_LANG, data'))"

section \<open>Paths, the file system and the parsers\<close>

text \<open>
  \<^verbatim>\<open>os.path.join\<close>, \<^verbatim>\<open>os.path.dirname\<close> and \<^verbatim>\<open>os.path.splitext\<close> for POSIX paths. The
  extension starts at the last dot of the last component, unless only dots come before
  it there.
\<close>

definition path_join :: "string \<Rightarrow> string \<Rightarrow> string" where
  "path_join a b =
     (if b \<noteq> [] \<and> hd b = CHR ''/'' then b
      else if a = [] \<or> last a = CHR ''/'' then a @ b
      else a @ ''/'' @ b)"

definition dirname :: "string \<Rightarrow> string" where
  "dirname p =
     (let head = rev (dropWhile (\<lambda>c. c \<noteq> CHR ''/'') (rev p))
      in if head \<noteq> [] \<and> (\<exists>c \<in> set head. c \<noteq> CHR ''/'')
         then rev (dropWhile (\<lambda>c. c = CHR ''/'') (rev head))
         else head)"

definition splitext :: "string \<Rightarrow> string \<times> string" where
  "splitext p =
     (let name = rev (takeWhile (\<lambda>c. c \<noteq> CHR ''/'') (rev p));
          ext = rev (takeWhile (\<lambda>c. c \<noteq> CHR ''.'') (rev name));
          stem = take (length name - length ext - 1) name
      in if CHR ''.'' \<in> set name \<and> (\<exists>c \<in> set stem. c \<noteq> CHR ''.'')
         then (take (length p - length ext - 1) p, CHR ''.'' # ext)
         else (p, []))"

text \<open>
  What the code asks the file system: \<^verbatim>\<open>os.path.isfile\<close>, \<^verbatim>\<open>os.path.isdir\<close>,
  \<^verbatim>\<open>os.path.getmtime\<close> and the text behind \<^verbatim>\<open>open(path)\<close>. The last two raise
  \<^verbatim>\<open>OSError\<close> on a path they cannot reach: \<open>None\<close>.
\<close>

record filesystem =
  isfile :: "string \<Rightarrow> bool"
  isdir :: "string \<Rightarrow> bool"
  getmtime :: "string \<Rightarrow> real option"
  read_text :: "string \<Rightarrow> string option"

text \<open>
  \<^verbatim>\<open>ConfigParser.FORMATS\<close> maps an extension to \<^verbatim>\<open>json.load\<close> or \<^verbatim>\<open>yaml.safe_load\<close>. The
  grammars of the two libraries are parameters (\<open>json_grammar\<close>, \<open>yaml_grammar\<close> below);
  what the model fixes is the argument a loader is called with. \<^verbatim>\<open>json.load(fp)\<close> calls
  \<^verbatim>\<open>fp.read()\<close>, which a string does not have; \<^verbatim>\<open>yaml.safe_load\<close> takes an open file or
  the text itself.
\<close>

datatype loader = JsonLoad | YamlSafeLoad

datatype loader_arg = Stream string | Text string

definition FORMATS :: "(string \<times> loader) list" where
  "FORMATS = [(''json'', JsonLoad), (''yaml'', YamlSafeLoad)]"

text \<open>
  The course configuration and its cache entries (\<^verbatim>\<open>access/config.py\<close>). The exercise
  entries are the records above: \<^verbatim>\<open>ExerciseConfig.course\<close> points back to the course and
  is read for \<^verbatim>\<open>course.lang\<close> only, which \<open>ex_default_lang\<close> holds.
\<close>

record CourseConfig =
  cc_meta :: "(string \<times> string) list"
  cc_file :: string
  cc_mtime :: real
  cc_ptime :: real
  cc_data :: dict
  cc_lang :: string
  cc_exercises :: "(string \<times> ExerciseConfig) list"

text \<open>
  The collaborators and settings that are not part of this repository's sources:
  the file system, \<^verbatim>\<open>settings.COURSES_PATH\<close>, the two grammars, the template renderer
  \<^verbatim>\<open>render_to_string\<close>, the markup renderer \<^verbatim>\<open>get_rst_as_html\<close>, \<^verbatim>\<open>Course.path_to\<close>,
  \<^verbatim>\<open>read_meta\<close> and the clock \<^verbatim>\<open>time.time()\<close>.

  \<open>load_index\<close> stands for the second half of \<^verbatim>\<open>CourseConfig.get\<close>, from
  \<^verbatim>\<open>t = os.path.getmtime(f)\<close> on: it parses the index file \<^verbatim>\<open>f\<close>, walks the modules,
  builds the entry and stores it in the cache \<^verbatim>\<open>_courses\<close>, and returns the entry and the
  cache (or raises).
\<close>

record env =
  fs :: filesystem
  COURSES_PATH :: string
  json_grammar :: "string \<Rightarrow> error + json"
  yaml_grammar :: "string \<Rightarrow> error + json"
  render_to_string :: "string \<Rightarrow> json \<Rightarrow> error + string"
  get_rst_as_html :: "json \<Rightarrow> error + string"
  path_to :: "string \<Rightarrow> string"
  read_meta :: "string \<Rightarrow> error + (string \<times> string) list"
  now :: real
  load_index :: "(string \<times> CourseConfig) list \<Rightarrow> string \<Rightarrow> (string \<times> string) list \<Rightarrow> string
                 \<Rightarrow> error + (CourseConfig option \<times> (string \<times> CourseConfig) list)"

fun call_loader :: "env \<Rightarrow> loader \<Rightarrow> loader_arg \<Rightarrow> error + json" where
  "call_loader env JsonLoad (Stream s) = json_grammar env s"
| "call_loader env JsonLoad (Text s) = Inl AttributeError"
| "call_loader env YamlSafeLoad (Stream s) = yaml_grammar env s"
| "call_loader env YamlSafeLoad (Text s) = yaml_grammar env s"

section \<open>\<^verbatim>\<open>ConfigParser\<close>: locating and parsing files\<close>

text \<open>A step that may raise, followed by the rest of the function.\<close>

definition and_then :: "error + 'a \<Rightarrow> ('a \<Rightarrow> error + 'b) \<Rightarrow> error + 'b" where
  "and_then m f = (case m of Inl e \<Rightarrow> Inl e | Inr x \<Rightarrow> f x)"

text \<open>\<^verbatim>\<open>data[name]\<close> and \<^verbatim>\<open>for x in data\<close> on a value of a document.\<close>

fun py_getitem :: "json \<Rightarrow> string \<Rightarrow> error + json" where
  "py_getitem (JDict d) name = (case map_of d name of None \<Rightarrow> Inl KeyError | Some v \<Rightarrow> Inr v)"
| "py_getitem v name = Inl TypeError"

fun py_iter :: "json \<Rightarrow> error + json list" where
  "py_iter (JList xs) = Inr xs"
| "py_iter (JDict d) = Inr (map (\<lambda>kv. JStr (fst kv)) d)"
| "py_iter (JStr s) = Inr (map (\<lambda>c. JStr [c]) s)"
| "py_iter v = Inl TypeError"

fun check_fields :: "string \<Rightarrow> json \<Rightarrow> string list \<Rightarrow> error + unit" where
  "check_fields file_name data [] = Inr ()"
| "check_fields file_name data (name # field_names) =
     and_then (py_contains data name) (\<lambda>present.
       if \<not> present then Inl (ConfigError (RequiredFieldMissing name file_name))
       else check_fields file_name data field_names)"

text \<open>
  \<^verbatim>\<open>get_config\<close>: the loop over \<^verbatim>\<open>FORMATS.keys()\<close> is \<open>probe_formats\<close>; a name it builds
  is never the empty string, so \<^verbatim>\<open>not config_file\<close> is \<^verbatim>\<open>config_file is None\<close>.
\<close>

fun probe_formats :: "filesystem \<Rightarrow> string \<Rightarrow> string list \<Rightarrow> string option \<Rightarrow> error + string option" where
  "probe_formats os path [] config_file = Inr config_file"
| "probe_formats os path (ext # exts) config_file =
     (let f = path @ ''.'' @ ext
      in if isfile os f
         then (if config_file \<noteq> None then Inl (ConfigError (MultipleConfigFiles path))
               else probe_formats os path exts (Some f))
         else probe_formats os path exts config_file)"

definition get_config :: "filesystem \<Rightarrow> string \<Rightarrow> error + string" where
  "get_config os path =
     (if isfile os path \<and>
         (let ext = snd (splitext path) in length ext > 0 \<and> tl ext \<in> set (map fst FORMATS))
      then Inr path
      else and_then
             (if isdir os (dirname path) then probe_formats os path (map fst FORMATS) None
              else Inr None)
             (\<lambda>config_file. case config_file of
                None \<Rightarrow> Inl (ConfigError (NoSupportedConfig path))
              | Some f \<Rightarrow> Inr f))"

text \<open>
  \<^verbatim>\<open>parse\<close> with its default loader: it opens the file and hands the open file to the
  loader; a \<^verbatim>\<open>ValueError\<close> of the loader becomes a \<^verbatim>\<open>ConfigError\<close>.
\<close>

definition parse :: "env \<Rightarrow> string \<Rightarrow> error + json" where
  "parse env path =
     (case map_of FORMATS (tl (snd (splitext path))) of
        None \<Rightarrow> Inl (ConfigError (UnsupportedFormat path))
      | Some loader \<Rightarrow>
          (case read_text (fs env) path of
             None \<Rightarrow> Inl OSError
           | Some text \<Rightarrow>
               (case call_loader env loader (Stream text) of
                  Inl (ValueError e) \<Rightarrow> Inl (ConfigError (ConfigurationErrorIn path e))
                | Inl e \<Rightarrow> Inl e
                | Inr data \<Rightarrow> Inr data)))"

section \<open>\<^verbatim>\<open>ConfigParser._include\<close>\<close>

text \<open>
  \<^verbatim>\<open>return_data.update(new_data)\<close>. For a dictionary every key of \<^verbatim>\<open>new_data\<close> is
  written. For a list or a string, Python reads each element as a pair of key and value;
  a scalar is not iterable. A pair whose key is not a string would give a key that the
  dictionaries of this model do not have (their keys are strings): it is answered with
  \<^verbatim>\<open>TypeError\<close>, as Python does for a key that is a list or a dictionary.
\<close>

fun update_items :: "dict \<Rightarrow> dict \<Rightarrow> dict" where
  "update_items d [] = d"
| "update_items d ((k, v) # other) = update_items (AList.update k v d) other"

fun update_pairs :: "dict \<Rightarrow> json list \<Rightarrow> error + dict" where
  "update_pairs d [] = Inr d"
| "update_pairs d (x # xs) =
     (case py_iter x of
        Inl e \<Rightarrow> Inl TypeError
      | Inr [JStr k, v] \<Rightarrow> update_pairs (AList.update k v d) xs
      | Inr [k, v] \<Rightarrow> Inl TypeError
      | Inr other \<Rightarrow> Inl (ValueError UpdateSequenceLength))"

fun dict_update :: "dict \<Rightarrow> json \<Rightarrow> error + dict" where
  "dict_update d (JDict other) = Inr (update_items d other)"
| "dict_update d (JList xs) = update_pairs d xs"
| "dict_update d (JStr s) = update_pairs d (map (\<lambda>c. JStr [c]) s)"
| "dict_update d v = Inl TypeError"

text \<open>
  The loop \<^verbatim>\<open>for new_key, new_value in new_data.items()\<close> of the branch without
  \<^verbatim>\<open>force\<close>: the error names the key, the value already there, the including file, the
  new value and the included file.
\<close>

fun include_items :: "dict \<Rightarrow> dict \<Rightarrow> string \<Rightarrow> string \<Rightarrow> error + dict" where
  "include_items [] return_data target_file include_file = Inr return_data"
| "include_items ((new_key, new_value) # items) return_data target_file include_file =
     (case map_of return_data new_key of
        None \<Rightarrow>
          include_items items (AList.update new_key new_value return_data) target_file include_file
      | Some old_value \<Rightarrow>
          Inl (ConfigError
                 (KeyAlreadyExists new_key old_value target_file new_value include_file)))"

text \<open>
  The merge of one include entry (the last statement of the loop body): with a true
  \<^verbatim>\<open>force\<close> the update, otherwise the loop over \<^verbatim>\<open>new_data.items()\<close>, a method only a
  dictionary has.
\<close>

definition include_merge :: "dict \<Rightarrow> json \<Rightarrow> dict \<Rightarrow> string \<Rightarrow> string \<Rightarrow> error + dict" where
  "include_merge include_data new_data return_data target_file include_file =
     (if (case map_of include_data ''force'' of Some v \<Rightarrow> truthy v | None \<Rightarrow> False)
      then dict_update return_data new_data
      else case new_data of
             JDict items \<Rightarrow> include_items items return_data target_file include_file
           | other \<Rightarrow> Inl AttributeError)"

text \<open>
  The body of the loop over \<^verbatim>\<open>data["include"]\<close>. In the branch without
  \<^verbatim>\<open>template_context\<close> the loader is called with \<^verbatim>\<open>include_file\<close>, the path of the file,
  a string; in the other branch with the rendered text, a string too. After
  \<^verbatim>\<open>include_data["file"]\<close> has succeeded, \<^verbatim>\<open>include_data\<close> is a dictionary.
\<close>

definition include_entry :: "env \<Rightarrow> json \<Rightarrow> dict \<Rightarrow> string \<Rightarrow> string \<Rightarrow> error + dict" where
  "include_entry env include_data return_data target_file course_dir =
     and_then (check_fields target_file include_data [''file'']) (\<lambda>checked.
     and_then (py_getitem include_data ''file'') (\<lambda>file.
     case (include_data, file) of
       (JDict entry, JStr file_name) \<Rightarrow>
         and_then (get_config (fs env) (path_join course_dir file_name)) (\<lambda>include_file.
         case map_of FORMATS (tl (snd (splitext include_file))) of
           None \<Rightarrow> Inl KeyError
         | Some loader \<Rightarrow>
             and_then
               (case map_of entry ''template_context'' of
                  Some render_context \<Rightarrow>
                    (let template_name = path_join course_dir include_file;
                         template_name' = drop (length (COURSES_PATH env) + 1) template_name
                     in and_then (render_to_string env template_name' render_context)
                          (\<lambda>rendered. call_loader env loader (Text rendered)))
                | None \<Rightarrow> call_loader env loader (Text include_file))
               (\<lambda>new_data. include_merge entry new_data return_data target_file include_file))
     | other \<Rightarrow> Inl TypeError))"

fun include_loop :: "env \<Rightarrow> json list \<Rightarrow> dict \<Rightarrow> string \<Rightarrow> string \<Rightarrow> error + dict" where
  "include_loop env [] return_data target_file course_dir = Inr return_data"
| "include_loop env (include_data # rest) return_data target_file course_dir =
     (case include_entry env include_data return_data target_file course_dir of
        Inl e \<Rightarrow> Inl e
      | Inr return_data' \<Rightarrow> include_loop env rest return_data' target_file course_dir)"

text \<open>\<^verbatim>\<open>_include\<close>: \<^verbatim>\<open>return_data = data.copy()\<close>, then the loop.\<close>

definition config_include :: "env \<Rightarrow> dict \<Rightarrow> string \<Rightarrow> string \<Rightarrow> error + dict" where
  "config_include env data target_file course_dir =
     (case map_of data ''include'' of
        None \<Rightarrow> Inl KeyError
      | Some includes \<Rightarrow>
          and_then (py_iter includes)
            (\<lambda>entries. include_loop env entries data target_file course_dir))"

section \<open>\<^verbatim>\<open>ConfigParser.process_tags\<close>\<close>

text \<open>
  \<^verbatim>\<open>PROCESSOR_TAG_REGEX\<close> is \<^verbatim>\<open>^(.+)\|(\w+)$\<close>, used with \<^verbatim>\<open>match\<close>. The tag is what
  follows the last bar of the key, one or more word characters; the name is what comes
  before that bar, not empty and without a line feed (the dot does not match one). The
  dollar also matches before a line feed that ends the key. Keys are ASCII text here, so a
  word character is a letter, a digit or the underscore.
\<close>

definition word_char :: "char \<Rightarrow> bool" where
  "word_char c =
     ((CHR ''a'' \<le> c \<and> c \<le> CHR ''z'') \<or> (CHR ''A'' \<le> c \<and> c \<le> CHR ''Z'') \<or>
      (CHR ''0'' \<le> c \<and> c \<le> CHR ''9'') \<or> c = CHR ''_'')"

definition match_tag :: "string \<Rightarrow> (string \<times> string) option" where
  "match_tag k =
     (let body = (if k \<noteq> [] \<and> last k = CHR 0x0A then butlast k else k);
          tag = rev (takeWhile (\<lambda>c. c \<noteq> CHR ''|'') (rev body));
          name = take (length body - length tag - 1) body
      in if CHR ''|'' \<in> set body \<and> tag \<noteq> [] \<and> (\<forall>c \<in> set tag. word_char c) \<and>
            name \<noteq> [] \<and> CHR 0x0A \<notin> set name
         then Some (name, tag) else None)"

text \<open>
  The two lists that \<^verbatim>\<open>process_tags\<close> fills while it walks the document:
  \<^verbatim>\<open>lang_keys\<close> and \<^verbatim>\<open>tags_processed\<close>.
\<close>

record tag_state =
  lang_keys :: "string list"
  tags_processed :: "string list"

text \<open>
  \<^verbatim>\<open>TAG_PROCESSOR_DICT\<close>. A processor is called with the dictionary under construction,
  the dictionary being read, the value and the language; the two processors read the
  value and the language only. \<^verbatim>\<open>value.get\<close> exists on a dictionary only.
\<close>

definition TAG_PROCESSOR_DICT :: "env \<Rightarrow> string \<Rightarrow> (json \<Rightarrow> string \<Rightarrow> error + json) option" where
  "TAG_PROCESSOR_DICT env tag =
     (if tag = ''i18n''
      then Some (\<lambda>value lang. case value of
                   JDict d \<Rightarrow> Inr (case map_of d lang of Some v \<Rightarrow> v | None \<Rightarrow> JNull)
                 | other \<Rightarrow> Inl AttributeError)
      else if tag = ''rst''
      then Some (\<lambda>value lang. case get_rst_as_html env value of
                   Inl e \<Rightarrow> Inl e
                 | Inr html \<Rightarrow> Inr (JStr html))
      else None)"

text \<open>
  The loop \<^verbatim>\<open>while m\<close> on one key: it strips the tags from the right and applies each to
  the value. Every round shortens the key.
\<close>

lemma match_tag_shorter: "match_tag k = Some (k', tag) \<Longrightarrow> length k' < length k"
  by (auto simp: match_tag_def Let_def split: if_splits)

function apply_tags ::
  "env \<Rightarrow> string \<Rightarrow> bool \<Rightarrow> string \<Rightarrow> json \<Rightarrow> tag_state \<Rightarrow> error + (string \<times> json \<times> tag_state)" where
  "apply_tags env lang collect_lang k v st =
     (case match_tag k of
        None \<Rightarrow> Inr (k, v, st)
      | Some (k', tag) \<Rightarrow>
          (let st1 = st\<lparr>tags_processed := tags_processed st @ [tag]\<rparr>;
               st2 = (case v of
                        JDict d \<Rightarrow>
                          if collect_lang \<and> tag = ''i18n''
                          then st1\<lparr>lang_keys := lang_keys st1 @ map fst d\<rparr> else st1
                      | other \<Rightarrow> st1)
           in case TAG_PROCESSOR_DICT env tag of
                None \<Rightarrow> Inl (ConfigError (UnsupportedProcessorTag tag))
              | Some processor \<Rightarrow>
                  (case processor v lang of
                     Inl e \<Rightarrow> Inl e
                   | Inr v' \<Rightarrow> apply_tags env lang collect_lang k' v' st2)))"
  by pat_completeness auto
termination
  by (relation "measure (\<lambda>(env, lang, collect_lang, k, v, st). length k)")
     (auto dest: match_tag_shorter)

declare apply_tags.simps [simp del]

text \<open>A processor returns a part of the value it is given, or a string.\<close>

lemma size_map_of: "map_of d k = Some v \<Longrightarrow> size v < size (JDict d)"
  by (induction d) (auto split: if_splits)

lemma processor_size:
  assumes "TAG_PROCESSOR_DICT env tag = Some processor" and "processor v lang = Inr v'"
  shows "size v' \<le> size v"
proof (cases "tag = ''i18n''")
  case True
  with assms obtain d where v: "v = JDict d"
    and v': "v' = (case map_of d lang of Some x \<Rightarrow> x | None \<Rightarrow> JNull)"
    by (cases v) (auto simp: TAG_PROCESSOR_DICT_def)
  show ?thesis
  proof (cases "map_of d lang")
    case None
    with v v' show ?thesis by simp
  next
    case (Some x)
    with v v' size_map_of[OF Some] show ?thesis by simp
  qed
next
  case False
  with assms obtain html where "v' = JStr html"
    by (auto simp: TAG_PROCESSOR_DICT_def split: if_splits sum.splits)
  then show ?thesis by simp
qed

lemma apply_tags_size:
  "apply_tags env lang collect_lang k v st = Inr (k', v', st') \<Longrightarrow> size v' \<le> size v"
proof (induction "length k" arbitrary: k v st rule: less_induct)
  case less
  show ?case
  proof (cases "match_tag k")
    case None
    with less.prems show ?thesis by (simp add: apply_tags.simps[of _ _ _ k])
  next
    case (Some p)
    obtain k1 tag where p: "p = (k1, tag)" by (cases p)
    from less.prems[unfolded apply_tags.simps[of _ _ _ k]] Some p obtain processor v1 st2 where
      pr: "TAG_PROCESSOR_DICT env tag = Some processor" and
      v1: "processor v lang = Inr v1" and
      rest: "apply_tags env lang collect_lang k1 v1 st2 = Inr (k', v', st')"
      by (simp add: Let_def split: option.splits sum.splits)
    have "length k1 < length k" using Some p by (auto dest: match_tag_shorter)
    from less.hyps[OF this rest] have "size v' \<le> size v1" .
    also have "size v1 \<le> size v" by (rule processor_size[OF pr v1])
    finally show ?thesis .
  qed
qed

text \<open>
  The inner function \<^verbatim>\<open>recursion\<close>. For a dictionary, \<open>recursion_dict\<close> is the loop over
  the keys sorted by length and then by text: it reads \<^verbatim>\<open>n[k]\<close>, strips and applies the
  tags, and stores the result of the recursion under the stripped key in the new
  dictionary \<open>d\<close>. For a list, \<open>recursion_list\<close> is the comprehension. Any other value is
  returned as it is.
\<close>

function (sequential) recursion :: "env \<Rightarrow> json \<Rightarrow> string \<Rightarrow> bool \<Rightarrow> tag_state \<Rightarrow> error + (json \<times> tag_state)"
  and recursion_dict ::
    "env \<Rightarrow> dict \<Rightarrow> string list \<Rightarrow> string \<Rightarrow> bool \<Rightarrow> dict \<Rightarrow> tag_state \<Rightarrow> error + (dict \<times> tag_state)"
  and recursion_list ::
    "env \<Rightarrow> json list \<Rightarrow> string \<Rightarrow> bool \<Rightarrow> tag_state \<Rightarrow> error + (json list \<times> tag_state)" where
  "recursion env (JDict n) lang collect_lang st =
     (case recursion_dict env n (sort_key (\<lambda>x. (length x, x)) (map fst n))
             lang collect_lang [] st of
        Inl e \<Rightarrow> Inl e
      | Inr (d, st') \<Rightarrow> Inr (JDict d, st'))"
| "recursion env (JList n) lang collect_lang st =
     (case recursion_list env n lang collect_lang st of
        Inl e \<Rightarrow> Inl e
      | Inr (rs, st') \<Rightarrow> Inr (JList rs, st'))"
| "recursion env n lang collect_lang st = Inr (n, st)"
| "recursion_dict env n [] lang collect_lang d st = Inr (d, st)"
| "recursion_dict env n (k # ks) lang collect_lang d st =
     (case map_of n k of
        None \<Rightarrow> Inl KeyError
      | Some v \<Rightarrow>
          (case apply_tags env lang collect_lang k v st of
             Inl e \<Rightarrow> Inl e
           | Inr (k', v', st') \<Rightarrow>
               (case recursion env v' lang collect_lang st' of
                  Inl e \<Rightarrow> Inl e
                | Inr (r, st'') \<Rightarrow>
                    recursion_dict env n ks lang collect_lang (AList.update k' r d) st'')))"
| "recursion_list env [] lang collect_lang st = Inr ([], st)"
| "recursion_list env (v # vs) lang collect_lang st =
     (case recursion env v lang collect_lang st of
        Inl e \<Rightarrow> Inl e
      | Inr (r, st') \<Rightarrow>
          (case recursion_list env vs lang collect_lang st' of
             Inl e \<Rightarrow> Inl e
           | Inr (rs, st'') \<Rightarrow> Inr (r # rs, st'')))"
  by pat_completeness auto
termination
proof (relation "measures [(\<lambda>x. case x of
          Inl (env, n, lang, c, st) \<Rightarrow> 2 * size n + 1
        | Inr (Inl (env, items, ks, lang, c, d, st)) \<Rightarrow> 2 * size (JDict items)
        | Inr (Inr (env, vs, lang, c, st)) \<Rightarrow> 2 * size (JList vs)),
      (\<lambda>x. case x of
          Inl (env, n, lang, c, st) \<Rightarrow> 0
        | Inr (Inl (env, items, ks, lang, c, d, st)) \<Rightarrow> length ks
        | Inr (Inr (env, vs, lang, c, st)) \<Rightarrow> 0)]", goal_cases)
  case 1
  show ?case by simp
next
  case 2
  then show ?case by simp
next
  case 3
  then show ?case by simp
next
  case (4 env items k ks lang c d st v x k' y v' st')
  from 4 have "size v' \<le> size v" by (auto dest: apply_tags_size)
  moreover from 4 have "size v < size (JDict items)" by (auto dest: size_map_of)
  ultimately show ?case by simp
next
  case 5
  then show ?case by simp
next
  case 6
  then show ?case by simp
next
  case 7
  then show ?case by simp
qed

text \<open>
  \<^verbatim>\<open>process_tags\<close>: the pass for the default language collects the language codes; then
  one pass for each collected code other than the default. Python runs these passes in
  the order of a set, which it does not fix; here it is the order of \<open>remdups\<close>. The
  result maps each language code to its variant, the default language first.
\<close>

fun other_langs ::
  "env \<Rightarrow> json \<Rightarrow> string list \<Rightarrow> dict \<Rightarrow> tag_state \<Rightarrow> error + (dict \<times> tag_state)" where
  "other_langs env data [] root' st = Inr (root', st)"
| "other_langs env data (lang # langs) root' st =
     (case recursion env data lang False st of
        Inl e \<Rightarrow> Inl e
      | Inr (r, st') \<Rightarrow> other_langs env data langs (AList.update lang r root') st')"

definition process_tags :: "env \<Rightarrow> json \<Rightarrow> string \<Rightarrow> error + dict" where
  "process_tags env data default_lang =
     (case recursion env data default_lang True \<lparr>lang_keys = [], tags_processed = []\<rparr> of
        Inl e \<Rightarrow> Inl e
      | Inr (default', st) \<Rightarrow>
          (case other_langs env data (removeAll default_lang (remdups (lang_keys st)))
                  [(default_lang, default')] st of
             Inl e \<Rightarrow> Inl e
           | Inr (root', st') \<Rightarrow> Inr root'))"


section \<open>Loading and caching (\<^verbatim>\<open>ExerciseConfig.load\<close>, \<^verbatim>\<open>CourseConfig\<close>)\<close>












section \<open>Classes of documents used in the properties\<close>








section \<open>A course directory for the examples\<close>

text \<open>
  The course \<^verbatim>\<open>c\<close> below \<^verbatim>\<open>COURSES_PATH = /srv\<close> holds an exercise file and two include
  files with the content \<^verbatim>\<open>{b: 2}\<close>, one as JSON and one as YAML. The grammars are cut down
  to the texts of the examples: the JSON grammar knows the one JSON text, the YAML grammar
  the one mapping and reads any other text as a plain scalar. The evaluations of the
  properties below run in this environment.
\<close>

definition example_fs :: filesystem where
  \<open>example_fs =
     \<lparr>isfile = (\<lambda>p. p \<in> {''/srv/c/inc.json'', ''/srv/c/inc.yaml'', ''/srv/c/ex.yaml''}),
      isdir = (\<lambda>p. p \<in> {''/srv'', ''/srv/c''}),
      getmtime = (\<lambda>p. if p \<in> {''/srv/c/inc.json'', ''/srv/c/inc.yaml'', ''/srv/c/ex.yaml'',
                                  ''/srv'', ''/srv/c''} then Some 10 else None),
      read_text = (\<lambda>p. if p = ''/srv/c/inc.json'' then Some ''{"b": 2}''
                        else if p = ''/srv/c/inc.yaml'' then Some ''{b: 2}''
                        else if p = ''/srv/c/ex.yaml'' then Some ''{title: T, view_type: v}''
                        else None)\<rparr>\<close>

definition example_env :: env where
  \<open>example_env =
     \<lparr>fs = example_fs,
      COURSES_PATH = ''/srv'',
      json_grammar = (\<lambda>s. if s = ''{"b": 2}'' then Inr (JDict [(''b'', JInt 2)])
                           else Inl (ValueError DecodeError)),
      yaml_grammar = (\<lambda>s. if s = ''{b: 2}'' then Inr (JDict [(''b'', JInt 2)])
                           else if s = ''{title: T, view_type: v}''
                           then Inr (JDict [(''title'', JStr ''T''), (''view_type'', JStr ''v'')])
                           else Inr (JStr s)),
      render_to_string = (\<lambda>name context. if name = ''c/inc.yaml'' then Inr ''{b: 2}''
                                           else Inl CollaboratorError),
      get_rst_as_html = (\<lambda>v. case v of JStr s \<Rightarrow> Inr (''<p>'' @ s @ ''</p>'')
                                 | other \<Rightarrow> Inl CollaboratorError),
      path_to = (\<lambda>key. ''/srv/'' @ key),
      read_meta = (\<lambda>p. Inr []),
      now = 100,
      load_index = (\<lambda>courses key meta f. Inl CollaboratorError)\<rparr>\<close>


section \<open>Properties of \<^verbatim>\<open>data_for_language\<close>\<close>

lemma try_languages_Some:
  "try_languages self cands = Some (v, self') \<Longrightarrow>
     \<exists>l d. Some l \<in> set cands \<and> map_of (ex_data self) l = Some d \<and>
           v = AList.update ''lang'' (JStr l) d \<and>
           self' = self\<lparr>ex_data := AList.update l v (ex_data self)\<rparr>"
  by (induction self cands rule: try_languages.induct)
     (auto simp: Let_def split: option.splits)

text \<open>
  Claim C9, as the code has it. The selector \<^verbatim>\<open>'_root'\<close> is answered before any lookup,
  with the whole variant set. For every other \<^verbatim>\<open>lang\<close> and a variant set that is not
  empty, \<^verbatim>\<open>data_for_language\<close> raises nothing and returns one variant: the one stored
  under \<^verbatim>\<open>lang\<close> if there is one, else the one stored under the default language if there
  is one, else the first variant of the set. A variant found under a language code is
  returned with its field \<^verbatim>\<open>lang\<close> set to that code; the first variant of the fallback is
  returned as it is.
\<close>

theorem data_for_language_fallback:
  assumes "ex_data self \<noteq> []" and "lang \<noteq> Some ''_root''"
  shows "\<exists>v self'. data_for_language self lang = Inr (Variant v, self') \<and>
     v = (case (case lang of None \<Rightarrow> None
                | Some l \<Rightarrow> map_option (Pair l) (map_of (ex_data self) l)) of
            Some (l, d) \<Rightarrow> AList.update ''lang'' (JStr l) d
          | None \<Rightarrow>
             (case map_of (ex_data self) (ex_default_lang self) of
                Some d \<Rightarrow> AList.update ''lang'' (JStr (ex_default_lang self)) d
              | None \<Rightarrow> snd (hd (ex_data self))))"
  using assms
  by (cases "ex_data self"; cases lang)
     (auto simp: data_for_language_def Let_def split: option.splits)

text \<open>
  The theorem at a set with the variants \<^verbatim>\<open>sv\<close> and \<^verbatim>\<open>en\<close>, default \<^verbatim>\<open>en\<close>, asked for
  \<^verbatim>\<open>fi\<close>: the \<^verbatim>\<open>en\<close> variant comes back, with \<^verbatim>\<open>lang\<close> set.
\<close>

theorem data_for_language_fallback_witness:
  "ex_data \<lparr>ex_data = [(''sv'', [(''title'', JStr ''S'')]), (''en'', [(''title'', JStr ''T'')])],
      ex_file = ''e.yaml'', ex_mtime = 1, ex_ptime = 2, ex_default_lang = ''en''\<rparr> \<noteq> [] \<and>
   Some ''fi'' \<noteq> Some ''_root'' \<and>
   (\<exists>self'. data_for_language
      \<lparr>ex_data = [(''sv'', [(''title'', JStr ''S'')]), (''en'', [(''title'', JStr ''T'')])],
       ex_file = ''e.yaml'', ex_mtime = 1, ex_ptime = 2, ex_default_lang = ''en''\<rparr> (Some ''fi'')
     = Inr (Variant [(''title'', JStr ''T''), (''lang'', JStr ''en'')], self'))"
  using data_for_language_fallback [of
      "\<lparr>ex_data = [(''sv'', [(''title'', JStr ''S'')]), (''en'', [(''title'', JStr ''T'')])],
        ex_file = ''e.yaml'', ex_mtime = 1, ex_ptime = 2, ex_default_lang = ''en''\<rparr>"
      "Some ''fi''"]
  by simp

text \<open>
  The claim as it was stated fails at the selector \<^verbatim>\<open>'_root'\<close>: the set has no variant
  \<^verbatim>\<open>_root\<close> and has the default variant \<^verbatim>\<open>en\<close>, and the call returns the whole set.
\<close>

theorem data_for_language_root_counterexample:
  "data_for_language
     \<lparr>ex_data = [(''en'', [(''title'', JStr ''T'')])], ex_file = ''e.yaml'',
      ex_mtime = 1, ex_ptime = 2, ex_default_lang = ''en''\<rparr> (Some ''_root'')
   = Inr (Root [(''en'', [(''title'', JStr ''T'')])],
     \<lparr>ex_data = [(''en'', [(''title'', JStr ''T'')])], ex_file = ''e.yaml'',
      ex_mtime = 1, ex_ptime = 2, ex_default_lang = ''en''\<rparr>)"
  by (simp add: data_for_language_def)

text \<open>
  Claim C10, as the code has it. With the selector \<^verbatim>\<open>'_root'\<close> the call returns the
  whole variant set and leaves the object as it was. Otherwise, when a variant is stored
  under the requested language, or else under the default language, the call returns that
  variant with its field \<^verbatim>\<open>lang\<close> set to the language code \<open>l\<close> under which it was found,
  and it writes the same into the stored object: afterwards the entry \<open>l\<close> of \<^verbatim>\<open>data\<close> is
  the returned variant, which has \<^verbatim>\<open>lang\<close> set to \<open>l\<close> and every other field as before,
  and every other entry of \<^verbatim>\<open>data\<close> is as before. When neither is stored, the call
  returns the first variant and leaves the object as it was (on an empty set it raises
  \<^verbatim>\<open>IndexError\<close>). In every case the file, both timestamps, the default language and the
  list of language codes are as before.
\<close>

theorem data_for_language_frame:
  "(lang = Some ''_root'' \<longrightarrow>
      data_for_language self lang = Inr (Root (ex_data self), self)) \<and>
   (\<forall>l d. lang = Some l \<and> l \<noteq> ''_root'' \<and> map_of (ex_data self) l = Some d \<longrightarrow>
      data_for_language self lang =
        Inr (Variant (AList.update ''lang'' (JStr l) d),
             self\<lparr>ex_data := AList.update l (AList.update ''lang'' (JStr l) d) (ex_data self)\<rparr>)) \<and>
   (\<forall>d. lang \<noteq> Some ''_root'' \<and>
        (case lang of None \<Rightarrow> True | Some l \<Rightarrow> map_of (ex_data self) l = None) \<and>
        map_of (ex_data self) (ex_default_lang self) = Some d \<longrightarrow>
      data_for_language self lang =
        Inr (Variant (AList.update ''lang'' (JStr (ex_default_lang self)) d),
             self\<lparr>ex_data := AList.update (ex_default_lang self)
                (AList.update ''lang'' (JStr (ex_default_lang self)) d) (ex_data self)\<rparr>)) \<and>
   (lang \<noteq> Some ''_root'' \<and>
        (case lang of None \<Rightarrow> True | Some l \<Rightarrow> map_of (ex_data self) l = None) \<and>
        map_of (ex_data self) (ex_default_lang self) = None \<longrightarrow>
      data_for_language self lang =
        (case ex_data self of [] \<Rightarrow> Inl IndexError | lv # rest \<Rightarrow> Inr (Variant (snd lv), self))) \<and>
   (\<forall>l d. map_of (ex_data self) l = Some d \<longrightarrow>
      map fst (AList.update l (AList.update ''lang'' (JStr l) d) (ex_data self)) = map fst (ex_data self) \<and>
      map_of (AList.update l (AList.update ''lang'' (JStr l) d) (ex_data self)) l
        = Some (AList.update ''lang'' (JStr l) d) \<and>
      (\<forall>l'. l' \<noteq> l \<longrightarrow>
         map_of (AList.update l (AList.update ''lang'' (JStr l) d) (ex_data self)) l'
           = map_of (ex_data self) l') \<and>
      map_of (AList.update ''lang'' (JStr l) d) ''lang'' = Some (JStr l) \<and>
      (\<forall>k. k \<noteq> ''lang'' \<longrightarrow> map_of (AList.update ''lang'' (JStr l) d) k = map_of d k)) \<and>
   (\<forall>r self'. data_for_language self lang = Inr (r, self') \<longrightarrow>
      ex_file self' = ex_file self \<and> ex_mtime self' = ex_mtime self \<and>
      ex_ptime self' = ex_ptime self \<and> ex_default_lang self' = ex_default_lang self \<and>
      map fst (ex_data self') = map fst (ex_data self))"
proof -
  have root: "lang = Some ''_root'' \<longrightarrow>
      data_for_language self lang = Inr (Root (ex_data self), self)"
    by (simp add: data_for_language_def)
  have req: "data_for_language self lang =
        Inr (Variant (AList.update ''lang'' (JStr l) d),
             self\<lparr>ex_data := AList.update l (AList.update ''lang'' (JStr l) d) (ex_data self)\<rparr>)"
    if "lang = Some l" "l \<noteq> ''_root''" "map_of (ex_data self) l = Some d" for l d
    using that by (simp add: data_for_language_def Let_def)
  have dflt: "data_for_language self lang =
        Inr (Variant (AList.update ''lang'' (JStr (ex_default_lang self)) d),
             self\<lparr>ex_data := AList.update (ex_default_lang self)
                (AList.update ''lang'' (JStr (ex_default_lang self)) d) (ex_data self)\<rparr>)"
    if "lang \<noteq> Some ''_root''"
       "case lang of None \<Rightarrow> True | Some l \<Rightarrow> map_of (ex_data self) l = None"
       "map_of (ex_data self) (ex_default_lang self) = Some d" for d
    using that by (cases lang) (simp_all add: data_for_language_def Let_def)
  have none: "data_for_language self lang =
        (case ex_data self of [] \<Rightarrow> Inl IndexError | lv # rest \<Rightarrow> Inr (Variant (snd lv), self))"
    if "lang \<noteq> Some ''_root''"
       "case lang of None \<Rightarrow> True | Some l \<Rightarrow> map_of (ex_data self) l = None"
       "map_of (ex_data self) (ex_default_lang self) = None"
    using that by (cases lang; cases "ex_data self") (simp_all add: data_for_language_def)
  have upd: "map fst (AList.update l (AList.update ''lang'' (JStr l) d) (ex_data self)) = map fst (ex_data self) \<and>
      map_of (AList.update l (AList.update ''lang'' (JStr l) d) (ex_data self)) l
        = Some (AList.update ''lang'' (JStr l) d) \<and>
      (\<forall>l'. l' \<noteq> l \<longrightarrow>
         map_of (AList.update l (AList.update ''lang'' (JStr l) d) (ex_data self)) l'
           = map_of (ex_data self) l') \<and>
      map_of (AList.update ''lang'' (JStr l) d) ''lang'' = Some (JStr l) \<and>
      (\<forall>k. k \<noteq> ''lang'' \<longrightarrow> map_of (AList.update ''lang'' (JStr l) d) k = map_of d k)"
    if m: "map_of (ex_data self) l = Some d" for l d
  proof -
    from m have "l \<in> fst ` set (ex_data self)"
      using map_of_eq_None_iff[of "ex_data self" l] by auto
    then have "map fst (AList.update l (AList.update ''lang'' (JStr l) d) (ex_data self))
                 = map fst (ex_data self)"
      by (simp add: update_keys)
    then show ?thesis by (simp add: update_conv')
  qed
  have frame: "ex_file self' = ex_file self \<and> ex_mtime self' = ex_mtime self \<and>
      ex_ptime self' = ex_ptime self \<and> ex_default_lang self' = ex_default_lang self \<and>
      map fst (ex_data self') = map fst (ex_data self)"
    if run: "data_for_language self lang = Inr (r, self')" for r self'
  proof (cases "lang = Some ''_root''")
    case True
    with run root show ?thesis by simp
  next
    case nr: False
    show ?thesis
    proof (cases "case lang of None \<Rightarrow> None | Some l \<Rightarrow> map_of (ex_data self) l")
      case (Some d)
      then obtain l where l: "lang = Some l" "map_of (ex_data self) l = Some d"
        by (cases lang) auto
      with nr have "l \<noteq> ''_root''" by simp
      from req[OF l(1) this l(2)] run
      have "self' = self\<lparr>ex_data := AList.update l (AList.update ''lang'' (JStr l) d) (ex_data self)\<rparr>"
        by simp
      with upd[OF l(2)] show ?thesis by simp
    next
      case None
      then have nf: "case lang of None \<Rightarrow> True | Some l \<Rightarrow> map_of (ex_data self) l = None"
        by (cases lang) auto
      show ?thesis
      proof (cases "map_of (ex_data self) (ex_default_lang self)")
        case (Some d)
        from dflt[OF nr nf Some] run
        have "self' = self\<lparr>ex_data := AList.update (ex_default_lang self)
                (AList.update ''lang'' (JStr (ex_default_lang self)) d) (ex_data self)\<rparr>"
          by simp
        with upd[OF Some] show ?thesis by simp
      next
        case None
        from none[OF nr nf None] run have "self' = self"
          by (cases "ex_data self") simp_all
        then show ?thesis by simp
      qed
    qed
  qed
  show ?thesis
  proof (intro conjI)
    show "lang = Some ''_root'' \<longrightarrow>
      data_for_language self lang = Inr (Root (ex_data self), self)"
      by (rule root)
  next
    show "\<forall>l d. lang = Some l \<and> l \<noteq> ''_root'' \<and> map_of (ex_data self) l = Some d \<longrightarrow>
      data_for_language self lang =
        Inr (Variant (AList.update ''lang'' (JStr l) d),
             self\<lparr>ex_data := AList.update l (AList.update ''lang'' (JStr l) d) (ex_data self)\<rparr>)"
      using req by (intro allI impI) (elim conjE)
  next
    show "\<forall>d. lang \<noteq> Some ''_root'' \<and>
        (case lang of None \<Rightarrow> True | Some l \<Rightarrow> map_of (ex_data self) l = None) \<and>
        map_of (ex_data self) (ex_default_lang self) = Some d \<longrightarrow>
      data_for_language self lang =
        Inr (Variant (AList.update ''lang'' (JStr (ex_default_lang self)) d),
             self\<lparr>ex_data := AList.update (ex_default_lang self)
                (AList.update ''lang'' (JStr (ex_default_lang self)) d) (ex_data self)\<rparr>)"
      using dflt by (intro allI impI) (elim conjE)
  next
    show "lang \<noteq> Some ''_root'' \<and>
        (case lang of None \<Rightarrow> True | Some l \<Rightarrow> map_of (ex_data self) l = None) \<and>
        map_of (ex_data self) (ex_default_lang self) = None \<longrightarrow>
      data_for_language self lang =
        (case ex_data self of [] \<Rightarrow> Inl IndexError | lv # rest \<Rightarrow> Inr (Variant (snd lv), self))"
      using none by (intro impI) (elim conjE)
  next
    show "\<forall>l d. map_of (ex_data self) l = Some d \<longrightarrow>
      map fst (AList.update l (AList.update ''lang'' (JStr l) d) (ex_data self)) = map fst (ex_data self) \<and>
      map_of (AList.update l (AList.update ''lang'' (JStr l) d) (ex_data self)) l
        = Some (AList.update ''lang'' (JStr l) d) \<and>
      (\<forall>l'. l' \<noteq> l \<longrightarrow>
         map_of (AList.update l (AList.update ''lang'' (JStr l) d) (ex_data self)) l'
           = map_of (ex_data self) l') \<and>
      map_of (AList.update ''lang'' (JStr l) d) ''lang'' = Some (JStr l) \<and>
      (\<forall>k. k \<noteq> ''lang'' \<longrightarrow> map_of (AList.update ''lang'' (JStr l) d) k = map_of d k)"
      using upd by (intro allI impI)
  next
    show "\<forall>r self'. data_for_language self lang = Inr (r, self') \<longrightarrow>
      ex_file self' = ex_file self \<and> ex_mtime self' = ex_mtime self \<and>
      ex_ptime self' = ex_ptime self \<and> ex_default_lang self' = ex_default_lang self \<and>
      map fst (ex_data self') = map fst (ex_data self)"
      using frame by (intro allI impI)
  qed
qed

text \<open>
  The theorem at a set with the variants \<^verbatim>\<open>sv\<close> and \<^verbatim>\<open>en\<close>: the selector \<^verbatim>\<open>'_root'\<close>
  changes nothing, the request for \<^verbatim>\<open>sv\<close> stamps the variant \<^verbatim>\<open>sv\<close> and no other, the
  request for \<^verbatim>\<open>fi\<close> stamps the default variant \<^verbatim>\<open>en\<close> and no other, and with a default
  language that has no variant the first variant is returned and nothing is changed.
\<close>

theorem data_for_language_frame_witness:
  "data_for_language
     \<lparr>ex_data = [(''sv'', [(''title'', JStr ''S'')]), (''en'', [(''title'', JStr ''T'')])],
      ex_file = ''e.yaml'', ex_mtime = 1, ex_ptime = 2, ex_default_lang = ''en''\<rparr> (Some ''_root'')
   = Inr (Root [(''sv'', [(''title'', JStr ''S'')]), (''en'', [(''title'', JStr ''T'')])],
     \<lparr>ex_data = [(''sv'', [(''title'', JStr ''S'')]), (''en'', [(''title'', JStr ''T'')])],
      ex_file = ''e.yaml'', ex_mtime = 1, ex_ptime = 2, ex_default_lang = ''en''\<rparr>) \<and>
   data_for_language
     \<lparr>ex_data = [(''sv'', [(''title'', JStr ''S'')]), (''en'', [(''title'', JStr ''T'')])],
      ex_file = ''e.yaml'', ex_mtime = 1, ex_ptime = 2, ex_default_lang = ''en''\<rparr> (Some ''sv'')
   = Inr (Variant [(''title'', JStr ''S''), (''lang'', JStr ''sv'')],
     \<lparr>ex_data = [(''sv'', [(''title'', JStr ''S''), (''lang'', JStr ''sv'')]),
                 (''en'', [(''title'', JStr ''T'')])],
      ex_file = ''e.yaml'', ex_mtime = 1, ex_ptime = 2, ex_default_lang = ''en''\<rparr>) \<and>
   data_for_language
     \<lparr>ex_data = [(''sv'', [(''title'', JStr ''S'')]), (''en'', [(''title'', JStr ''T'')])],
      ex_file = ''e.yaml'', ex_mtime = 1, ex_ptime = 2, ex_default_lang = ''en''\<rparr> (Some ''fi'')
   = Inr (Variant [(''title'', JStr ''T''), (''lang'', JStr ''en'')],
     \<lparr>ex_data = [(''sv'', [(''title'', JStr ''S'')]),
                 (''en'', [(''title'', JStr ''T''), (''lang'', JStr ''en'')])],
      ex_file = ''e.yaml'', ex_mtime = 1, ex_ptime = 2, ex_default_lang = ''en''\<rparr>) \<and>
   data_for_language
     \<lparr>ex_data = [(''sv'', [(''title'', JStr ''S'')]), (''en'', [(''title'', JStr ''T'')])],
      ex_file = ''e.yaml'', ex_mtime = 1, ex_ptime = 2, ex_default_lang = ''de''\<rparr> None
   = Inr (Variant [(''title'', JStr ''S'')],
     \<lparr>ex_data = [(''sv'', [(''title'', JStr ''S'')]), (''en'', [(''title'', JStr ''T'')])],
      ex_file = ''e.yaml'', ex_mtime = 1, ex_ptime = 2, ex_default_lang = ''de''\<rparr>)"
proof -
  let ?S = "\<lparr>ex_data = [(''sv'', [(''title'', JStr ''S'')]), (''en'', [(''title'', JStr ''T'')])],
      ex_file = ''e.yaml'', ex_mtime = 1, ex_ptime = 2, ex_default_lang = ''en''\<rparr>"
  let ?D = "\<lparr>ex_data = [(''sv'', [(''title'', JStr ''S'')]), (''en'', [(''title'', JStr ''T'')])],
      ex_file = ''e.yaml'', ex_mtime = 1, ex_ptime = 2, ex_default_lang = ''de''\<rparr>"
  have 1: "data_for_language ?S (Some ''_root'') = Inr (Root (ex_data ?S), ?S)"
    using data_for_language_frame [of "Some ''_root''" ?S, THEN conjunct1] by simp
  have 2: "data_for_language ?S (Some ''sv'') =
      Inr (Variant (AList.update ''lang'' (JStr ''sv'') [(''title'', JStr ''S'')]),
           ?S\<lparr>ex_data := AList.update ''sv''
                  (AList.update ''lang'' (JStr ''sv'') [(''title'', JStr ''S'')]) (ex_data ?S)\<rparr>)"
    using data_for_language_frame [of "Some ''sv''" ?S, THEN conjunct2, THEN conjunct1,
            rule_format, of "''sv''" "[(''title'', JStr ''S'')]"] by simp
  have 3: "data_for_language ?S (Some ''fi'') =
      Inr (Variant (AList.update ''lang'' (JStr ''en'') [(''title'', JStr ''T'')]),
           ?S\<lparr>ex_data := AList.update ''en''
                  (AList.update ''lang'' (JStr ''en'') [(''title'', JStr ''T'')]) (ex_data ?S)\<rparr>)"
    using data_for_language_frame [of "Some ''fi''" ?S, THEN conjunct2, THEN conjunct2,
            THEN conjunct1, rule_format, of "[(''title'', JStr ''T'')]"] by simp
  have 4: "data_for_language ?D None = Inr (Variant [(''title'', JStr ''S'')], ?D)"
    using data_for_language_frame [of None ?D, THEN conjunct2, THEN conjunct2, THEN conjunct2,
            THEN conjunct1] by simp
  from 1 2 3 4 show ?thesis by simp
qed

text \<open>
  The claim as it was stated fails when the variant is found: the stored \<^verbatim>\<open>en\<close> variant
  has one field before the call and two after it.
\<close>

theorem data_for_language_mutates_counterexample:
  "data_for_language
     \<lparr>ex_data = [(''en'', [(''title'', JStr ''T'')])], ex_file = ''e.yaml'',
      ex_mtime = 1, ex_ptime = 2, ex_default_lang = ''en''\<rparr> (Some ''en'')
   = Inr (Variant [(''title'', JStr ''T''), (''lang'', JStr ''en'')],
     \<lparr>ex_data = [(''en'', [(''title'', JStr ''T''), (''lang'', JStr ''en'')])], ex_file = ''e.yaml'',
      ex_mtime = 1, ex_ptime = 2, ex_default_lang = ''en''\<rparr>) \<and>
   [(''en'', [(''title'', JStr ''T''), (''lang'', JStr ''en'')])] \<noteq> [(''en'', [(''title'', JStr ''T'')])]"
  by (simp add: data_for_language_def Let_def)

section \<open>Properties of the course validators\<close>

lemma child_keys_loop_acc: "child_keys_loop cs keys = keys @ child_keys_loop cs []"
proof (induction cs arbitrary: keys)
  case Nil
  show ?case by simp
next
  case (Cons c cs)
  have "child_keys_loop (c # cs) keys = child_keys_loop cs ((keys @ [item_key c]) @ child_keys c)"
    by simp
  also have "\<dots> = ((keys @ [item_key c]) @ child_keys c) @ child_keys_loop cs []"
    by (rule Cons.IH)
  also have "\<dots> = keys @ child_keys_loop cs ([item_key c] @ child_keys c)"
    using Cons.IH[of "[item_key c] @ child_keys c"] by simp
  finally show ?case by simp
qed

text \<open>\<^verbatim>\<open>child_keys\<close> lists the key of every item below the parent, at any depth.\<close>

lemma child_keys_descendants:
  "child_keys_loop cs [] = map item_key (descendants cs)"
proof (induction cs rule: descendants.induct)
  case 1
  show ?case by simp
next
  case (2 kd k cat children cs)
  have "child_keys_loop (Item kd k cat children # cs) [] =
        child_keys_loop cs ([k] @ child_keys_loop children [])"
    by simp
  also have "\<dots> = ([k] @ child_keys_loop children []) @ child_keys_loop cs []"
    by (rule child_keys_loop_acc)
  finally show ?case using 2 by simp
qed

text \<open>The set \<^verbatim>\<open>duplicates\<close> of the message holds the keys that occur more than once.\<close>

lemma find_duplicates_eq:
  "find_duplicates keys keyset duplicates =
     duplicates \<union> {k \<in> set keys. k \<notin> keyset} \<union> {k. 1 < count_list keys k}"
proof (induction keys arbitrary: keyset duplicates)
  case Nil
  show ?case by simp
next
  case (Cons key keys)
  have pos: "0 < count_list keys k \<longleftrightarrow> k \<in> set keys" for k
    using count_list_0_iff[of keys k] by auto
  show ?case
    by (simp add: Cons.IH) (auto simp: pos)
qed

lemma length_eq_card_iff: "length xs = card (set xs) \<longleftrightarrow> distinct xs"
  using card_distinct[of xs] distinct_card[of xs] by auto

lemma validate_keys_loop_ok:
  "(\<forall>m \<in> set ms. distinct (module_child_keys m)) \<Longrightarrow> validate_keys_loop ms = Inr ()"
  by (induction ms) (auto simp: Let_def length_eq_card_iff)

lemma validate_keys_loop_dup:
  "\<exists>m \<in> set ms. \<not> distinct (module_child_keys m) \<Longrightarrow>
   \<exists>m \<in> set ms. \<not> distinct (module_child_keys m) \<and>
     validate_keys_loop ms = Inl (ValueError (DuplicateLearningObjectKeys
       {k. 1 < count_list (module_child_keys m) k}))"
  by (induction ms) (auto simp: Let_def length_eq_card_iff find_duplicates_eq)

lemma validate_keys_loop_first:
  "validate_keys_loop ms =
     (case find (\<lambda>m. \<not> distinct (map item_key (descendants (module_children m)))) ms of
        None \<Rightarrow> Inr ()
      | Some m \<Rightarrow> Inl (ValueError (DuplicateLearningObjectKeys
          {k. 1 < count_list (map item_key (descendants (module_children m))) k})))"
  by (induction ms)
     (auto simp: Let_def length_eq_card_iff find_duplicates_eq module_child_keys_def
        child_keys_descendants)

text \<open>
  Claim C1, as the code has it. \<^verbatim>\<open>validate_keys\<close> compares the keys module by module. It
  raises the duplicate-key error whenever two items below the same module, at any depth,
  share a key, and the error names the keys that occur more than once below the first such
  module. When the keys of the items below each module are pairwise distinct it raises
  nothing and returns the course; two items below different modules may then share a key.
\<close>

theorem validate_keys_per_module:
  "(if \<forall>m \<in> set (course_modules c). distinct (map item_key (descendants (module_children m)))
    then validate_keys c = Inr c
    else \<exists>m \<in> set (course_modules c).
           \<not> distinct (map item_key (descendants (module_children m))) \<and>
           validate_keys c = Inl (ValueError (DuplicateLearningObjectKeys
             {k. 1 < count_list (map item_key (descendants (module_children m))) k}))) \<and>
   validate_keys c =
     (case find (\<lambda>m. \<not> distinct (map item_key (descendants (module_children m))))
             (course_modules c) of
        None \<Rightarrow> Inr c
      | Some m \<Rightarrow> Inl (ValueError (DuplicateLearningObjectKeys
          {k. 1 < count_list (map item_key (descendants (module_children m))) k})))"
proof
  show "if \<forall>m \<in> set (course_modules c). distinct (map item_key (descendants (module_children m)))
    then validate_keys c = Inr c
    else \<exists>m \<in> set (course_modules c).
           \<not> distinct (map item_key (descendants (module_children m))) \<and>
           validate_keys c = Inl (ValueError (DuplicateLearningObjectKeys
             {k. 1 < count_list (map item_key (descendants (module_children m))) k}))"
  proof (cases "\<forall>m \<in> set (course_modules c). distinct (module_child_keys m)")
    case True
    then show ?thesis
      using validate_keys_loop_ok[of "course_modules c"]
      by (simp add: validate_keys_def module_child_keys_def child_keys_descendants)
  next
    case False
    then have "\<exists>m \<in> set (course_modules c). \<not> distinct (module_child_keys m)" by simp
    from validate_keys_loop_dup[OF this] False show ?thesis
      by (auto simp: validate_keys_def module_child_keys_def child_keys_descendants)
  qed
next
  have "validate_keys_loop (course_modules c) =
     (case find (\<lambda>m. \<not> distinct (map item_key (descendants (module_children m))))
             (course_modules c) of
        None \<Rightarrow> Inr ()
      | Some m \<Rightarrow> Inl (ValueError (DuplicateLearningObjectKeys
          {k. 1 < count_list (map item_key (descendants (module_children m))) k})))"
    by (rule validate_keys_loop_first)
  then show "validate_keys c =
     (case find (\<lambda>m. \<not> distinct (map item_key (descendants (module_children m))))
             (course_modules c) of
        None \<Rightarrow> Inr c
      | Some m \<Rightarrow> Inl (ValueError (DuplicateLearningObjectKeys
          {k. 1 < count_list (map item_key (descendants (module_children m))) k})))"
    by (simp add: validate_keys_def split: option.splits)
qed

text \<open>
  The theorem at a course of one module in which a chapter and an exercise nested below
  it share the key \<^verbatim>\<open>ex1\<close>: the error names \<^verbatim>\<open>ex1\<close>.
\<close>

theorem validate_keys_per_module_witness:
  "validate_keys
     \<lparr>course_modules =
        [\<lparr>module_key = ''m1'',
          module_children = [Item Chapter ''ex1'' ''hw'' [Item Exercise ''ex1'' ''hw'' []]]\<rparr>],
      course_categories = [(''hw'', JDict [])]\<rparr>
   = Inl (ValueError (DuplicateLearningObjectKeys {''ex1''}))"
proof -
  have "{k. 1 < count_list [''ex1'', ''ex1''] k} = {''ex1''}"
    by auto
  then show ?thesis
    using validate_keys_per_module [of
      "\<lparr>course_modules =
         [\<lparr>module_key = ''m1'',
           module_children = [Item Chapter ''ex1'' ''hw'' [Item Exercise ''ex1'' ''hw'' []]]\<rparr>],
        course_categories = [(''hw'', JDict [])]\<rparr>"]
    by simp
qed

text \<open>
  The claim as it was stated fails for two modules: the exercise of module \<^verbatim>\<open>m1\<close> and the
  chapter of module \<^verbatim>\<open>m2\<close> share the key \<^verbatim>\<open>ex1\<close>, and all three validators of the course
  pass.
\<close>

theorem validate_keys_two_modules_counterexample:
  "validate_module_keys
     [\<lparr>module_key = ''m1'', module_children = [Item Exercise ''ex1'' ''hw'' []]\<rparr>,
      \<lparr>module_key = ''m2'', module_children = [Item Chapter ''ex1'' ''hw'' []]\<rparr>]
   = Inr [\<lparr>module_key = ''m1'', module_children = [Item Exercise ''ex1'' ''hw'' []]\<rparr>,
          \<lparr>module_key = ''m2'', module_children = [Item Chapter ''ex1'' ''hw'' []]\<rparr>] \<and>
   validate_categories
     \<lparr>course_modules =
        [\<lparr>module_key = ''m1'', module_children = [Item Exercise ''ex1'' ''hw'' []]\<rparr>,
         \<lparr>module_key = ''m2'', module_children = [Item Chapter ''ex1'' ''hw'' []]\<rparr>],
      course_categories = [(''hw'', JDict [])]\<rparr>
   = Inr \<lparr>course_modules =
        [\<lparr>module_key = ''m1'', module_children = [Item Exercise ''ex1'' ''hw'' []]\<rparr>,
         \<lparr>module_key = ''m2'', module_children = [Item Chapter ''ex1'' ''hw'' []]\<rparr>],
      course_categories = [(''hw'', JDict [])]\<rparr> \<and>
   validate_keys
     \<lparr>course_modules =
        [\<lparr>module_key = ''m1'', module_children = [Item Exercise ''ex1'' ''hw'' []]\<rparr>,
         \<lparr>module_key = ''m2'', module_children = [Item Chapter ''ex1'' ''hw'' []]\<rparr>],
      course_categories = [(''hw'', JDict [])]\<rparr>
   = Inr \<lparr>course_modules =
        [\<lparr>module_key = ''m1'', module_children = [Item Exercise ''ex1'' ''hw'' []]\<rparr>,
         \<lparr>module_key = ''m2'', module_children = [Item Chapter ''ex1'' ''hw'' []]\<rparr>],
      course_categories = [(''hw'', JDict [])]\<rparr>"
  by (simp add: validate_module_keys_def validate_categories_def validate_keys_def
      module_child_keys_def module_child_categories_def Let_def)

text \<open>
  Claim C2 at a course that declares the category \<^verbatim>\<open>hw\<close> only, with a chapter of
  category \<^verbatim>\<open>hw\<close> and, nested below it, an exercise of category \<^verbatim>\<open>lab\<close>. The claim
  requires the undeclared-category error; \<^verbatim>\<open>validate_categories\<close> raises nothing and
  returns the course, because \<^verbatim>\<open>child_categories\<close> drops what it collects below a child.
\<close>

theorem validate_categories_misses_grandchild:
  "validate_categories
     \<lparr>course_modules =
        [\<lparr>module_key = ''m1'',
          module_children = [Item Chapter ''ch1'' ''hw'' [Item Exercise ''ex1'' ''lab'' []]]\<rparr>],
      course_categories = [(''hw'', JDict [])]\<rparr>
   = Inr \<lparr>course_modules =
        [\<lparr>module_key = ''m1'',
          module_children = [Item Chapter ''ch1'' ''hw'' [Item Exercise ''ex1'' ''lab'' []]]\<rparr>],
      course_categories = [(''hw'', JDict [])]\<rparr>"
  by (simp add: validate_categories_def module_child_categories_def Let_def)

section \<open>Properties of \<^verbatim>\<open>_default_lang\<close>\<close>

text \<open>
  Claim C4, as the code has it. When the field \<^verbatim>\<open>language\<close> is a list that is not empty,
  the default language is its first element, and the function stores it in the field
  \<^verbatim>\<open>lang\<close> of the document. When the document has no field \<^verbatim>\<open>language\<close>, the default
  language is the field \<^verbatim>\<open>lang\<close> of the document if it has one, and the fixed fallback
  \<^verbatim>\<open>en\<close> otherwise; the document is not changed. Nothing is stated for a \<^verbatim>\<open>language\<close>
  that is a string.
\<close>

theorem default_lang_derivation:
  "(\<forall>x xs. map_of data ''language'' = Some (JList (x # xs)) \<longrightarrow>
      config_default_lang data = Inr (x, AList.update ''lang'' x data)) \<and>
   (map_of data ''language'' = None \<longrightarrow>
      config_default_lang data =
        Inr (case map_of data ''lang'' of Some v \<Rightarrow> v | None \<Rightarrow> JStr ''en'', data))"
  by (auto simp: config_default_lang_def DEFAULT_LANG_def equals_str_class_def update_conv
           split: option.splits)

text \<open>
  The theorem at a document with \<^verbatim>\<open>language: [fi, en]\<close> and at a document with neither
  field.
\<close>

theorem default_lang_derivation_witness:
  "config_default_lang [(''name'', JStr ''C''), (''language'', JList [JStr ''fi'', JStr ''en''])]
     = Inr (JStr ''fi'',
            [(''name'', JStr ''C''), (''language'', JList [JStr ''fi'', JStr ''en'']),
             (''lang'', JStr ''fi'')]) \<and>
   config_default_lang [(''name'', JStr ''C'')] = Inr (JStr ''en'', [(''name'', JStr ''C'')])"
  using default_lang_derivation [of "[(''name'', JStr ''C''), (''language'', JList [JStr ''fi'', JStr ''en''])]"]
        default_lang_derivation [of "[(''name'', JStr ''C'')]"]
  by simp

text \<open>
  The claim as it was stated fails twice. A document without \<^verbatim>\<open>language\<close> and with
  \<^verbatim>\<open>lang: fi\<close> gets \<^verbatim>\<open>fi\<close>, not the fallback. A document with the string
  \<^verbatim>\<open>language: fi\<close> gets the fallback \<^verbatim>\<open>en\<close>, not \<^verbatim>\<open>fi\<close>: the test \<^verbatim>\<open>l == str\<close> is
  never true.
\<close>

theorem default_lang_counterexample:
  "config_default_lang [(''name'', JStr ''C''), (''lang'', JStr ''fi'')]
     = Inr (JStr ''fi'', [(''name'', JStr ''C''), (''lang'', JStr ''fi'')]) \<and>
   config_default_lang [(''name'', JStr ''C''), (''language'', JStr ''fi'')]
     = Inr (JStr ''en'', [(''name'', JStr ''C''), (''language'', JStr ''fi'')])"
  by (simp add: config_default_lang_def equals_str_class_def DEFAULT_LANG_def)


section \<open>Properties of the include resolver\<close>


lemma and_then_simps [simp]:
  "and_then (Inl e) f = Inl e"
  "and_then (Inr x) f = f x"
  by (simp_all add: and_then_def)

lemma map_of_update_items:
  "distinct (map fst nd) \<Longrightarrow> map_of (update_items acc nd) = map_of acc ++ map_of nd"
proof (induction nd arbitrary: acc)
  case Nil
  show ?case by simp
next
  case (Cons kv nd)
  obtain k v where kv: "kv = (k, v)" by (cases kv)
  from Cons.prems kv have k: "k \<notin> dom (map_of nd)" and d: "distinct (map fst nd)"
    by (auto simp: dom_map_of_conv_image_fst)
  have "map_of (update_items acc (kv # nd)) = map_of (AList.update k v acc) ++ map_of nd"
    using Cons.IH[OF d, of "AList.update k v acc"] kv by simp
  also have "\<dots> = (map_of acc)(k \<mapsto> v) ++ map_of nd"
    by (simp only: update_conv')
  also have "\<dots> = map_of acc ++ map_of (kv # nd)"
    using k kv by (auto simp: map_add_def fun_eq_iff split: option.splits)
  finally show ?case .
qed

lemma include_items_eq:
  "distinct (map fst nd) \<Longrightarrow>
   include_items nd acc tf inc =
     (case find (\<lambda>kv. map_of acc (fst kv) \<noteq> None) nd of
        None \<Rightarrow> Inr (update_items acc nd)
      | Some kv \<Rightarrow> Inl (ConfigError
          (KeyAlreadyExists (fst kv) (the (map_of acc (fst kv))) tf (snd kv) inc)))"
proof (induction nd arbitrary: acc)
  case Nil
  show ?case by simp
next
  case (Cons kv nd)
  obtain k v where kv: "kv = (k, v)" by (cases kv)
  from Cons.prems kv have k: "k \<notin> fst ` set nd" and d: "distinct (map fst nd)"
    by auto
  show ?case
  proof (cases "map_of acc k")
    case (Some old)
    then show ?thesis using kv by simp
  next
    case None
    have same: "find (\<lambda>kv. map_of (AList.update k v acc) (fst kv) \<noteq> None) nd =
                find (\<lambda>kv. map_of acc (fst kv) \<noteq> None) nd"
      using k by (intro find_cong) (auto simp: update_conv)
    have val: "find (\<lambda>kv. map_of acc (fst kv) \<noteq> None) nd = Some kv' \<Longrightarrow>
               map_of (AList.update k v acc) (fst kv') = map_of acc (fst kv')" for kv'
      using k by (auto simp: update_conv find_Some_iff)
    show ?thesis
      using None kv Cons.IH[OF d, of "AList.update k v acc"] same val
      by (auto split: option.splits)
  qed
qed


lemma update_keys_prefix: "prefix (map fst d) (map fst (AList.update k v d))"
  by (simp add: update_keys)

lemma update_items_prefix: "prefix (map fst d) (map fst (update_items d other))"
proof (induction other arbitrary: d)
  case Nil
  show ?case by simp
next
  case (Cons kv other)
  obtain k v where kv: "kv = (k, v)" by (cases kv)
  have "prefix (map fst d) (map fst (AList.update k v d))" by (rule update_keys_prefix)
  also have "prefix \<dots> (map fst (update_items (AList.update k v d) other))" by (rule Cons.IH)
  finally show ?case using kv by simp
qed

lemma update_pairs_prefix:
  "update_pairs d xs = Inr r \<Longrightarrow> prefix (map fst d) (map fst r)"
proof (induction d xs rule: update_pairs.induct)
  case (1 d)
  then show ?case by simp
next
  case (2 d x xs)
  from "2.prems" obtain k v where it: "py_iter x = Inr [JStr k, v]"
    and rest: "update_pairs (AList.update k v d) xs = Inr r"
    by (auto split: sum.splits list.splits json.splits)
  have "prefix (map fst d) (map fst (AList.update k v d))" by (rule update_keys_prefix)
  also have "prefix \<dots> (map fst r)" using "2.IH"[OF it refl refl refl refl rest] .
  finally show ?case .
qed

lemma dict_update_prefix:
  "dict_update d v = Inr r \<Longrightarrow> prefix (map fst d) (map fst r)"
  by (cases v) (auto simp: update_items_prefix dest: update_pairs_prefix)

lemma include_items_prefix:
  "include_items items d tf inc = Inr r \<Longrightarrow> prefix (map fst d) (map fst r)"
proof (induction items arbitrary: d)
  case Nil
  then show ?case by simp
next
  case (Cons kv items)
  obtain k v where kv: "kv = (k, v)" by (cases kv)
  from Cons.prems kv have rest: "include_items items (AList.update k v d) tf inc = Inr r"
    by (auto split: option.splits)
  have "prefix (map fst d) (map fst (AList.update k v d))" by (rule update_keys_prefix)
  also have "prefix \<dots> (map fst r)" by (rule Cons.IH[OF rest])
  finally show ?case .
qed

lemma include_merge_prefix:
  "include_merge entry new_data d tf inc = Inr r \<Longrightarrow> prefix (map fst d) (map fst r)"
  by (auto simp: include_merge_def split: if_splits json.splits
           dest: dict_update_prefix include_items_prefix)

lemma and_then_Inr: "and_then m f = Inr r \<longleftrightarrow> (\<exists>x. m = Inr x \<and> f x = Inr r)"
  by (cases m) simp_all

lemma include_entry_prefix:
  assumes "include_entry env include_data d tf dir = Inr r"
  shows "prefix (map fst d) (map fst r)"
proof (cases include_data)
  case (JDict entry)
  with assms obtain fl where
    rest: "(case (JDict entry, fl) of
             (JDict entry, JStr file_name) \<Rightarrow>
               and_then (get_config (fs env) (path_join dir file_name)) (\<lambda>include_file.
               case map_of FORMATS (tl (snd (splitext include_file))) of
                 None \<Rightarrow> Inl KeyError
               | Some loader \<Rightarrow>
                   and_then
                     (case map_of entry ''template_context'' of
                        Some render_context \<Rightarrow>
                          (let template_name = path_join dir include_file;
                               template_name' = drop (length (COURSES_PATH env) + 1) template_name
                           in and_then (render_to_string env template_name' render_context)
                                (\<lambda>rendered. call_loader env loader (Text rendered)))
                      | None \<Rightarrow> call_loader env loader (Text include_file))
                     (\<lambda>new_data. include_merge entry new_data d tf include_file))
           | other \<Rightarrow> Inl TypeError) = Inr r"
    unfolding include_entry_def and_then_Inr by blast
  then show ?thesis
    by (cases fl; cases "map_of entry ''template_context''")
       (auto simp: and_then_Inr Let_def split: option.split_asm dest: include_merge_prefix)
qed (use assms in \<open>simp_all add: include_entry_def and_then_Inr\<close>)



lemma include_loop_prefix:
  "include_loop env entries d tf dir = Inr r \<Longrightarrow> prefix (map fst d) (map fst r)"
proof (induction entries arbitrary: d)
  case Nil
  then show ?case by simp
next
  case (Cons e entries)
  from Cons.prems obtain d' where e: "include_entry env e d tf dir = Inr d'"
    and rest: "include_loop env entries d' tf dir = Inr r"
    by (auto split: sum.splits)
  have "prefix (map fst d) (map fst d')" by (rule include_entry_prefix[OF e])
  also have "prefix \<dots> (map fst r)" by (rule Cons.IH[OF rest])
  finally show ?case .
qed

lemma config_include_prefix:
  "config_include env data tf dir = Inr r \<Longrightarrow> prefix (map fst data) (map fst r)"
  by (auto simp: config_include_def and_then_Inr split: option.splits dest: include_loop_prefix)

text \<open>
  Claim C5 at a host document that includes \<^verbatim>\<open>inc.json\<close>, respectively \<^verbatim>\<open>inc.yaml\<close>,
  without \<^verbatim>\<open>template_context\<close>; both files exist and hold the mapping of \<^verbatim>\<open>b\<close> to 2.
  The claim requires the key \<^verbatim>\<open>b\<close> in the result. The code calls the loader with the
  path of the file and never opens it: whatever the two grammars are, the JSON include
  raises \<^verbatim>\<open>AttributeError\<close>, and the YAML include merges what the YAML grammar reads
  in the text of the path, \<^verbatim>\<open>/srv/c/inc.yaml\<close>.
\<close>

theorem include_passes_path_to_loader:
  "config_include (env\<lparr>fs := example_fs\<rparr>)
      [(''a'', JInt 1), (''include'', JList [JDict [(''file'', JStr ''inc.json'')]])]
      ''/srv/c/ex.json'' ''/srv/c''
    = Inl AttributeError \<and>
   config_include (env\<lparr>fs := example_fs\<rparr>)
      [(''a'', JInt 1), (''include'', JList [JDict [(''file'', JStr ''inc.yaml'')]])]
      ''/srv/c/ex.yaml'' ''/srv/c''
    = (case yaml_grammar env ''/srv/c/inc.yaml'' of
         Inl e \<Rightarrow> Inl e
       | Inr new_data \<Rightarrow>
           include_merge [(''file'', JStr ''inc.yaml'')] new_data
             [(''a'', JInt 1), (''include'', JList [JDict [(''file'', JStr ''inc.yaml'')]])]
             ''/srv/c/ex.yaml'' ''/srv/c/inc.yaml'')"
  by (simp add: config_include_def include_entry_def path_join_def get_config_def
        example_fs_def splitext_def Let_def FORMATS_def and_then_def split: sum.splits)

text \<open>
  In the example environment, where the grammars read the files' content as the mapping,
  \<^verbatim>\<open>parse\<close> (which opens the file) returns the mapping for \<^verbatim>\<open>inc.json\<close>, and the YAML
  include fails as well: the path is a plain scalar, and a string has no \<^verbatim>\<open>items\<close>.
\<close>

lemma include_direct_example:
  "parse example_env ''/srv/c/inc.json'' = Inr (JDict [(''b'', JInt 2)]) \<and>
   config_include example_env
      [(''a'', JInt 1), (''include'', JList [JDict [(''file'', JStr ''inc.yaml'')]])]
      ''/srv/c/ex.yaml'' ''/srv/c'' = Inl AttributeError"
  by (simp add: parse_def config_include_def include_entry_def path_join_def get_config_def
        example_env_def example_fs_def splitext_def Let_def FORMATS_def include_merge_def)

text \<open>
  The merge of one include entry, taken alone, follows the policy of the specification.
  Let the included document be a mapping \<open>items\<close>. If \<^verbatim>\<open>force\<close> is set to a true value in
  the include entry, every key of \<open>items\<close> is written into the accumulated result, over
  the value that may be there. Otherwise the first key of \<open>items\<close> that the accumulated
  result already has raises the configuration error, which names the key, the value
  already there, the including file, the new value and the included file; if there is no
  such key, all keys of \<open>items\<close> are added. In both cases a merge that succeeds gives the
  accumulated result overlaid with \<open>items\<close>. The accumulator starts as the host document:
  with an empty include list \<^verbatim>\<open>_include\<close> returns the host document, and the keys of any
  result begin with the keys of the host document, in their order.
\<close>

lemma include_merge_policy:
  assumes "distinct (map fst items)"
  shows "(if (case map_of include_data ''force'' of Some v \<Rightarrow> truthy v | None \<Rightarrow> False)
          then include_merge include_data (JDict items) return_data target_file include_file
                 = Inr (update_items return_data items)
          else case find (\<lambda>kv. map_of return_data (fst kv) \<noteq> None) items of
                 None \<Rightarrow>
                   include_merge include_data (JDict items) return_data target_file include_file
                     = Inr (update_items return_data items)
               | Some kv \<Rightarrow>
                   \<exists>old. map_of return_data (fst kv) = Some old \<and>
                     include_merge include_data (JDict items) return_data target_file include_file
                       = Inl (ConfigError
                           (KeyAlreadyExists (fst kv) old target_file (snd kv) include_file))) \<and>
         map_of (update_items return_data items) = map_of return_data ++ map_of items \<and>
         (map_of data ''include'' = Some (JList []) \<longrightarrow>
            config_include env data target_file course_dir = Inr data) \<and>
         (\<forall>r. config_include env data target_file course_dir = Inr r \<longrightarrow>
            prefix (map fst data) (map fst r))"
proof -
  have policy: "include_merge include_data (JDict items) return_data target_file include_file =
      (if (case map_of include_data ''force'' of Some v \<Rightarrow> truthy v | None \<Rightarrow> False)
       then Inr (update_items return_data items)
       else case find (\<lambda>kv. map_of return_data (fst kv) \<noteq> None) items of
              None \<Rightarrow> Inr (update_items return_data items)
            | Some kv \<Rightarrow> Inl (ConfigError (KeyAlreadyExists (fst kv)
                (the (map_of return_data (fst kv))) target_file (snd kv) include_file)))"
    using include_items_eq[OF assms] by (simp add: include_merge_def)
  have found: "map_of return_data (fst kv) \<noteq> None"
    if "find (\<lambda>kv. map_of return_data (fst kv) \<noteq> None) items = Some kv" for kv
    using that by (auto simp: find_Some_iff)
  have first: "(if (case map_of include_data ''force'' of Some v \<Rightarrow> truthy v | None \<Rightarrow> False)
          then include_merge include_data (JDict items) return_data target_file include_file
                 = Inr (update_items return_data items)
          else case find (\<lambda>kv. map_of return_data (fst kv) \<noteq> None) items of
                 None \<Rightarrow>
                   include_merge include_data (JDict items) return_data target_file include_file
                     = Inr (update_items return_data items)
               | Some kv \<Rightarrow>
                   \<exists>old. map_of return_data (fst kv) = Some old \<and>
                     include_merge include_data (JDict items) return_data target_file include_file
                       = Inl (ConfigError
                           (KeyAlreadyExists (fst kv) old target_file (snd kv) include_file)))"
    using policy found by (auto split: option.splits)
  have empty: "map_of data ''include'' = Some (JList []) \<longrightarrow>
            config_include env data target_file course_dir = Inr data"
    by (simp add: config_include_def)
  from first map_of_update_items[OF assms] empty config_include_prefix
  show ?thesis by blast
qed

text \<open>
  The three merges of the specification, into the accumulated result
  \<^verbatim>\<open>{a: 1}\<close>: \<^verbatim>\<open>{b: 2}\<close> without \<^verbatim>\<open>force\<close> is added, \<^verbatim>\<open>{a: 3}\<close> without \<^verbatim>\<open>force\<close> is
  refused, \<^verbatim>\<open>{a: 3}\<close> with \<^verbatim>\<open>force: true\<close> overwrites.
\<close>

lemma include_merge_policy_examples:
  "include_merge [(''file'', JStr ''inc.yaml'')] (JDict [(''b'', JInt 2)]) [(''a'', JInt 1)]
     ''/srv/c/ex.yaml'' ''/srv/c/inc.yaml'' = Inr [(''a'', JInt 1), (''b'', JInt 2)] \<and>
   include_merge [(''file'', JStr ''inc.yaml'')] (JDict [(''a'', JInt 3)]) [(''a'', JInt 1)]
     ''/srv/c/ex.yaml'' ''/srv/c/inc.yaml''
     = Inl (ConfigError (KeyAlreadyExists ''a'' (JInt 1) ''/srv/c/ex.yaml'' (JInt 3)
              ''/srv/c/inc.yaml'')) \<and>
   include_merge [(''file'', JStr ''inc.yaml''), (''force'', JBool True)] (JDict [(''a'', JInt 3)])
     [(''a'', JInt 1)] ''/srv/c/ex.yaml'' ''/srv/c/inc.yaml'' = Inr [(''a'', JInt 3)]"
  using include_merge_policy [of "[(''b'', JInt 2)]" "[(''file'', JStr ''inc.yaml'')]"
          "[(''a'', JInt 1)]" "''/srv/c/ex.yaml''" "''/srv/c/inc.yaml''"]
        include_merge_policy [of "[(''a'', JInt 3)]" "[(''file'', JStr ''inc.yaml'')]"
          "[(''a'', JInt 1)]" "''/srv/c/ex.yaml''" "''/srv/c/inc.yaml''"]
        include_merge_policy [of "[(''a'', JInt 3)]"
          "[(''file'', JStr ''inc.yaml''), (''force'', JBool True)]"
          "[(''a'', JInt 1)]" "''/srv/c/ex.yaml''" "''/srv/c/inc.yaml''"]
  by simp

text \<open>
  Claim C6 at host documents that include \<^verbatim>\<open>inc.json\<close>, respectively \<^verbatim>\<open>inc.yaml\<close>,
  with \<^verbatim>\<open>force: true\<close> and without \<^verbatim>\<open>template_context\<close>, and at the host document that
  includes \<^verbatim>\<open>inc.yaml\<close> without \<^verbatim>\<open>force\<close>; both files hold the mapping of \<^verbatim>\<open>b\<close> to 2,
  a key the host document does not have. The claim requires the key \<^verbatim>\<open>b\<close> to be written
  into the result in all three. In the code no mapping reaches the merge, because the
  loader is given the path of the file: with \<^verbatim>\<open>force\<close> the JSON include raises
  \<^verbatim>\<open>AttributeError\<close>, whatever the grammars are, and in the example environment the YAML
  include raises \<^verbatim>\<open>ValueError\<close>, from \<^verbatim>\<open>return_data.update\<close> on the text of the path;
  without \<^verbatim>\<open>force\<close> the YAML include raises \<^verbatim>\<open>AttributeError\<close>.
\<close>

theorem include_force_without_template:
  "config_include (env\<lparr>fs := example_fs\<rparr>)
      [(''a'', JInt 1),
       (''include'', JList [JDict [(''file'', JStr ''inc.json''), (''force'', JBool True)]])]
      ''/srv/c/ex.json'' ''/srv/c''
    = Inl AttributeError \<and>
   config_include example_env
      [(''a'', JInt 1),
       (''include'', JList [JDict [(''file'', JStr ''inc.yaml''), (''force'', JBool True)]])]
      ''/srv/c/ex.yaml'' ''/srv/c''
    = Inl (ValueError UpdateSequenceLength) \<and>
   config_include example_env
      [(''a'', JInt 1), (''include'', JList [JDict [(''file'', JStr ''inc.yaml'')]])]
      ''/srv/c/ex.yaml'' ''/srv/c''
    = Inl AttributeError"
  by (simp add: config_include_def include_entry_def path_join_def get_config_def example_env_def
        example_fs_def splitext_def Let_def FORMATS_def include_merge_def)

text \<open>
  The whole of \<^verbatim>\<open>_include\<close> in the example environment, through the one branch in which
  the loader is given the content: the include entry has a \<^verbatim>\<open>template_context\<close>, the
  renderer returns the text of \<^verbatim>\<open>inc.yaml\<close>, and \<^verbatim>\<open>b\<close> is added after the keys of the
  host document.
\<close>

lemma include_template_example:
  "config_include example_env
      [(''a'', JInt 1),
       (''include'', JList [JDict [(''file'', JStr ''inc.yaml''), (''template_context'', JDict [])]])]
      ''/srv/c/ex.yaml'' ''/srv/c''
   = Inr [(''a'', JInt 1),
          (''include'', JList [JDict [(''file'', JStr ''inc.yaml''), (''template_context'', JDict [])]]),
          (''b'', JInt 2)]"
  by (simp add: config_include_def include_entry_def path_join_def get_config_def example_env_def
        example_fs_def splitext_def Let_def FORMATS_def include_merge_def)


section \<open>Properties of the tag processor\<close>







lemma process_tags_untagged_example:
  "process_tags example_env
     (JDict [(''zz'', JInt 1), (''b'', JList [JDict [(''y'', JNull), (''x'', JBool True)]])]) ''fi''
   = Inr [(''fi'', JDict [(''b'', JList [JDict [(''x'', JBool True), (''y'', JNull)]]), (''zz'', JInt 1)])]"
  by (simp add: process_tags_def apply_tags.simps match_tag_def word_char_def Let_def
        TAG_PROCESSOR_DICT_def less_eq_prod_def less_prod_def)




























section \<open>Properties of the caches\<close>




end
